theory Spec2Isabelle
  imports Complex_Main "HOL-Library.Word"
begin

section \<open>Text, lines and the Unicode tables\<close>

text \<open>
  A Python \<open>str\<close> is a sequence of Unicode code points, so a character is modelled by its
  code point (\<open>ord\<close>) and a string by the list of them. Python \<open>int\<close> is \<open>int\<close>.
  \<open>ustr\<close> turns an ASCII literal into such a string.
\<close>

type_synonym uchar = nat
type_synonym ustr = "nat list"

definition ustr :: "string \<Rightarrow> ustr" where
  "ustr s = map of_char s"

definition ord :: "uchar \<Rightarrow> int" where
  "ord ch = int ch"

text \<open>
  \<open>str.splitlines()\<close> of CPython: the line boundaries are the characters for which
  \<open>_PyUnicode_IsLinebreak\<close> holds (LF, VT, FF, CR, FS, GS, RS, NEL, LINE SEPARATOR,
  PARAGRAPH SEPARATOR); CR followed by LF is one boundary; the boundaries are dropped and
  a text that ends with a boundary has no empty last line.
\<close>

definition is_linebreak :: "uchar \<Rightarrow> bool" where
  "is_linebreak c \<longleftrightarrow>
     c = 0x0A \<or> c = 0x0B \<or> c = 0x0C \<or> c = 0x0D \<or> c = 0x1C \<or> c = 0x1D \<or> c = 0x1E \<or>
     c = 0x85 \<or> c = 0x2028 \<or> c = 0x2029"

fun splitlines_from :: "ustr \<Rightarrow> ustr \<Rightarrow> ustr list" where
  "splitlines_from cur [] = (if cur = [] then [] else [cur])"
| "splitlines_from cur (c # cs) =
     (if is_linebreak c then
        (case cs of
           d # ds \<Rightarrow> if c = 0x0D \<and> d = 0x0A then cur # splitlines_from [] ds
                     else cur # splitlines_from [] cs
         | [] \<Rightarrow> cur # splitlines_from [] cs)
      else splitlines_from (cur @ [c]) cs)"

definition splitlines :: "ustr \<Rightarrow> ustr list" where
  "splitlines text = splitlines_from [] text"

text \<open>
  \<open>str.isspace()\<close> on one character is CPython's \<open>_PyUnicode_IsWhitespace\<close>, a fixed list.
\<close>

definition isspace :: "uchar \<Rightarrow> bool" where
  "isspace c \<longleftrightarrow>
     (0x09 \<le> c \<and> c \<le> 0x0D) \<or> (0x1C \<le> c \<and> c \<le> 0x20) \<or> c = 0x85 \<or> c = 0xA0 \<or>
     c = 0x1680 \<or> (0x2000 \<le> c \<and> c \<le> 0x200A) \<or> c = 0x2028 \<or> c = 0x2029 \<or>
     c = 0x202F \<or> c = 0x205F \<or> c = 0x3000"

text \<open>
  The tables of the \<open>unicodedata\<close> module (general category and character name of every
  code point) belong to the Unicode Character Database, not to the program: they are a
  parameter of the model. \<open>ucd_name\<close> is \<open>None\<close> where the character has no name.
\<close>

record unicodedata =
  ucd_category :: "uchar \<Rightarrow> string"
  ucd_name :: "uchar \<Rightarrow> string option"

section \<open>CodepointClassifier\<close>

definition ALLOWED_WHITESPACE :: "uchar list" where
  "ALLOWED_WHITESPACE = [0x20, 0x09, 0x0A, 0x0D]"

definition VARIATION_SELECTOR_RANGES :: "(int \<times> int) list" where
  "VARIATION_SELECTOR_RANGES = [(0xFE00, 0xFE0F), (0xE0100, 0xE01EF)]"

definition is_in_variation_selector_range :: "int \<Rightarrow> bool" where
  "is_in_variation_selector_range codepoint =
     list_ex (\<lambda>(start, end). start \<le> codepoint \<and> codepoint \<le> end) VARIATION_SELECTOR_RANGES"

definition is_forbidden_char :: "unicodedata \<Rightarrow> uchar \<Rightarrow> bool" where
  "is_forbidden_char U ch =
     (if ch \<in> set ALLOWED_WHITESPACE then False
      else if isspace ch then True
      else if is_in_variation_selector_range (ord ch) then True
      else if ucd_category U ch \<in> set [''Cc'', ''Cf''] then True
      else if ord ch \<in> set [0x034F] then True
      else False)"

section \<open>LineRenderer\<close>

text \<open>
  The \<open>unicode_escape\<close> codec of CPython: a backslash is doubled; tab, line feed and
  carriage return become \<open>\t\<close>, \<open>\n\<close>, \<open>\r\<close>; the other characters below U+0020 and from
  U+007F to U+00FF become \<open>\xNN\<close>; printable ASCII stays; a character below U+10000
  becomes \<open>\uNNNN\<close> and any other \<open>\UNNNNNNNN\<close>, with lowercase hexadecimal digits. The
  result is ASCII, so decoding it as ASCII changes nothing.
\<close>

definition hexdigit :: "nat \<Rightarrow> uchar" where
  "hexdigit d = (if d < 10 then 0x30 + d else 0x57 + d)"

fun hex_fixed :: "nat \<Rightarrow> nat \<Rightarrow> ustr" where
  "hex_fixed 0 n = []"
| "hex_fixed (Suc w) n = hex_fixed w (n div 16) @ [hexdigit (n mod 16)]"

definition escape_char :: "uchar \<Rightarrow> ustr" where
  "escape_char c =
     (if c = 0x5C then [0x5C, 0x5C]
      else if c = 0x09 then [0x5C, 0x74]
      else if c = 0x0A then [0x5C, 0x6E]
      else if c = 0x0D then [0x5C, 0x72]
      else if c < 0x20 \<or> (0x7F \<le> c \<and> c < 0x100) then [0x5C, 0x78] @ hex_fixed 2 c
      else if c < 0x7F then [c]
      else if c < 0x10000 then [0x5C, 0x75] @ hex_fixed 4 c
      else [0x5C, 0x55] @ hex_fixed 8 c)"

definition unicode_escape :: "ustr \<Rightarrow> ustr" where
  "unicode_escape line = concat (map escape_char line)"

text \<open>A Python slice \<open>xs[:k]\<close>: a negative \<open>k\<close> counts from the end.\<close>

definition slice_to :: "int \<Rightarrow> 'a list \<Rightarrow> 'a list" where
  "slice_to k xs = (if 0 \<le> k then take (nat k) xs else take (nat (int (length xs) + k)) xs)"

definition render_line :: "ustr \<Rightarrow> int \<Rightarrow> ustr" where
  "render_line line max_len =
     (let rendered = unicode_escape line
      in if int (length rendered) > max_len then slice_to (max_len - 3) rendered @ ustr ''...''
         else rendered)"

section \<open>TextScanner\<close>

record Finding =
  path :: ustr
  line :: int
  col :: int
  codepoint :: int
  name :: string
  category :: string
  rendered_line :: ustr

fun enumerate_from :: "int \<Rightarrow> 'a list \<Rightarrow> (int \<times> 'a) list" where
  "enumerate_from i [] = []"
| "enumerate_from i (x # xs) = (i, x) # enumerate_from (i + 1) xs"

definition unicodedata_name :: "unicodedata \<Rightarrow> uchar \<Rightarrow> string \<Rightarrow> string" where
  "unicodedata_name U ch dflt = (case ucd_name U ch of Some n \<Rightarrow> n | None \<Rightarrow> dflt)"

definition scan_line :: "unicodedata \<Rightarrow> ustr \<Rightarrow> int \<Rightarrow> ustr \<Rightarrow> Finding list" where
  "scan_line U p i text_line =
     map (\<lambda>(j, ch). \<lparr>path = p, line = i, col = j, codepoint = ord ch,
                      name = unicodedata_name U ch ''UNKNOWN'',
                      category = ucd_category U ch,
                      rendered_line = render_line text_line 240\<rparr>)
         (filter (\<lambda>(j, ch). is_forbidden_char U ch) (enumerate_from 1 text_line))"

definition scan_text :: "unicodedata \<Rightarrow> ustr \<Rightarrow> ustr \<Rightarrow> int \<Rightarrow> Finding list" where
  "scan_text U p text start_line =
     concat (map (\<lambda>(i, text_line). scan_line U p i text_line) (enumerate_from start_line (splitlines text)))"

section \<open>DiffParser\<close>

datatype exn = ValueError | ZeroDivisionError | RuntimeError ustr

text \<open>
  \<open>shlex.split(s)\<close> is the tokenizer of the standard library in POSIX mode with
  \<open>whitespace_split\<close> and no comment characters: whitespace is space, tab, CR and LF, the
  quotes are \<open>'\<close> and \<open>"\<close>, the escape is the backslash, which is honoured inside \<open>"\<close>
  quotes only before \<open>"\<close> and the backslash itself. The states are those of
  \<open>shlex.read_token\<close>: between tokens (\<open>' '\<close>), in a word (\<open>'a'\<close>), in a quote, after an
  escape (with \<open>escapedstate\<close> the state to go back to). End of input inside a quote or
  after an escape raises \<open>ValueError\<close>.
\<close>

datatype shstate = Between | InWord | InQuote uchar | Escaped

definition shlex_whitespace :: "uchar \<Rightarrow> bool" where
  "shlex_whitespace c \<longleftrightarrow> c = 0x20 \<or> c = 0x09 \<or> c = 0x0D \<or> c = 0x0A"

definition shlex_quote :: "uchar \<Rightarrow> bool" where
  "shlex_quote c \<longleftrightarrow> c = 0x27 \<or> c = 0x22"

fun read_tokens :: "shstate \<Rightarrow> shstate \<Rightarrow> bool \<Rightarrow> ustr \<Rightarrow> ustr \<Rightarrow> exn + ustr list" where
  "read_tokens st es quoted tok [] =
     (case st of
        InQuote q \<Rightarrow> Inl ValueError
      | Escaped \<Rightarrow> Inl ValueError
      | _ \<Rightarrow> if tok = [] \<and> \<not> quoted then Inr [] else Inr [tok])"
| "read_tokens st es quoted tok (c # cs) =
     (case st of
        Between \<Rightarrow>
          if shlex_whitespace c then
            (if tok \<noteq> [] \<or> quoted
             then (case read_tokens Between es False [] cs of Inl e \<Rightarrow> Inl e | Inr ts \<Rightarrow> Inr (tok # ts))
             else read_tokens Between es quoted tok cs)
          else if c = 0x5C then read_tokens Escaped InWord quoted tok cs
          else if shlex_quote c then read_tokens (InQuote c) es quoted tok cs
          else read_tokens InWord es quoted [c] cs
      | InQuote q \<Rightarrow>
          if c = q then read_tokens InWord es True tok cs
          else if c = 0x5C \<and> q = 0x22 then read_tokens Escaped (InQuote q) True tok cs
          else read_tokens (InQuote q) es True (tok @ [c]) cs
      | Escaped \<Rightarrow>
          (case es of
             InQuote q \<Rightarrow>
               if c \<noteq> 0x5C \<and> c \<noteq> q then read_tokens es es quoted (tok @ [0x5C, c]) cs
               else read_tokens es es quoted (tok @ [c]) cs
           | _ \<Rightarrow> read_tokens es es quoted (tok @ [c]) cs)
      | InWord \<Rightarrow>
          if shlex_whitespace c then
            (if tok \<noteq> [] \<or> quoted
             then (case read_tokens Between es False [] cs of Inl e \<Rightarrow> Inl e | Inr ts \<Rightarrow> Inr (tok # ts))
             else read_tokens Between es quoted tok cs)
          else if shlex_quote c then read_tokens (InQuote c) es quoted tok cs
          else if c = 0x5C then read_tokens Escaped InWord quoted tok cs
          else read_tokens InWord es quoted (tok @ [c]) cs)"

definition shlex_split :: "ustr \<Rightarrow> exn + ustr list" where
  "shlex_split s = read_tokens Between Between False [] s"

text \<open>
  \<open>_DIFF_HEADER_RE = ^diff --git (?P<old>.+?) (?P<new>.+)$\<close>, matched at the start of the
  line: \<open>.\<close> is any character but a line feed, \<open>old\<close> is the shortest non-empty run that a
  space and a non-empty \<open>new\<close> can follow, and \<open>$\<close> is the end of the line or the place
  before a last line feed. The result is the group \<open>new\<close>.
\<close>

definition lit :: "ustr \<Rightarrow> ustr \<Rightarrow> ustr option" where
  "lit p s = (if take (length p) s = p then Some (drop (length p) s) else None)"

definition startswith :: "ustr \<Rightarrow> ustr \<Rightarrow> bool" where
  "startswith s p \<longleftrightarrow> take (length p) s = p"

definition endswith :: "ustr \<Rightarrow> ustr \<Rightarrow> bool" where
  "endswith s p \<longleftrightarrow> length p \<le> length s \<and> drop (length s - length p) s = p"

definition strip_final_lf :: "ustr \<Rightarrow> ustr" where
  "strip_final_lf s = (if s \<noteq> [] \<and> last s = 0x0A then butlast s else s)"

definition dots_to_eol :: "ustr \<Rightarrow> bool" where
  "dots_to_eol s \<longleftrightarrow> strip_final_lf s \<noteq> [] \<and> 0x0A \<notin> set (strip_final_lf s)"

fun header_split :: "ustr \<Rightarrow> ustr \<Rightarrow> ustr option" where
  "header_split old [] = None"
| "header_split old (c # cs) =
     (if c = 0x0A then None
      else if c = 0x20 \<and> old \<noteq> [] \<and> dots_to_eol cs then Some (strip_final_lf cs)
      else header_split (old @ [c]) cs)"

definition DIFF_HEADER_RE_match :: "ustr \<Rightarrow> ustr option" where
  "DIFF_HEADER_RE_match raw =
     (case lit (ustr ''diff --git '') raw of None \<Rightarrow> None | Some rest \<Rightarrow> header_split [] rest)"

text \<open>
  \<open>_HUNK_RE\<close> is compiled from the raw string
  \<^verbatim>\<open>^@@ -\\d+(?:,\\d+)? \\+(?P<start>\\d+)(?:,(?P<count>\\d+))? @@\<close>.
  In a raw string \<^verbatim>\<open>\\\<close> is two characters, and the regular expression \<^verbatim>\<open>\\\<close> is one
  literal backslash: \<^verbatim>\<open>\\d+\<close> is a backslash followed by one or more letters \<open>d\<close>, and
  \<^verbatim>\<open>\\+\<close> is one or more backslashes. So the expression reads: \<open>@@ -\<close>, a backslash, \<open>d\<close>s,
  optionally a comma, a backslash and \<open>d\<close>s, a space, backslashes, the group \<open>start\<close> (a
  backslash and \<open>d\<close>s), optionally a comma and the group \<open>count\<close>, and \<open> @@\<close>. Every
  repetition is followed by a character it cannot match, so the greedy match is the only
  one. The run of backslashes before \<open>start\<close> gives its last one to the group, so it has
  at least two. The result is the group \<open>start\<close>.
\<close>

definition plus1 :: "uchar \<Rightarrow> ustr \<Rightarrow> (ustr \<times> ustr) option" where
  "plus1 c s =
     (if takeWhile (\<lambda>x. x = c) s = [] then None
      else Some (takeWhile (\<lambda>x. x = c) s, dropWhile (\<lambda>x. x = c) s))"

definition backslash_ds :: "ustr \<Rightarrow> (ustr \<times> ustr) option" where
  "backslash_ds s =
     (case lit [0x5C] s of None \<Rightarrow> None
      | Some r \<Rightarrow> (case plus1 0x64 r of None \<Rightarrow> None | Some (m, r') \<Rightarrow> Some (0x5C # m, r')))"

definition opt_comma_backslash_ds :: "ustr \<Rightarrow> ustr" where
  "opt_comma_backslash_ds s =
     (case lit [0x2C] s of None \<Rightarrow> s
      | Some r \<Rightarrow> (case backslash_ds r of None \<Rightarrow> s | Some (m, r') \<Rightarrow> r'))"

definition HUNK_RE_match :: "ustr \<Rightarrow> ustr option" where
  "HUNK_RE_match raw =
     (case lit (ustr ''@@ -'') raw of None \<Rightarrow> None
      | Some r1 \<Rightarrow>
     (case backslash_ds r1 of None \<Rightarrow> None
      | Some (m2, r2) \<Rightarrow>
     (case lit [0x20] (opt_comma_backslash_ds r2) of None \<Rightarrow> None
      | Some r3 \<Rightarrow>
     (case plus1 0x5C r3 of None \<Rightarrow> None
      | Some (bs, r4) \<Rightarrow>
         if length bs < 2 then None
         else (case plus1 0x64 r4 of None \<Rightarrow> None
               | Some (ds, r5) \<Rightarrow>
                  (case lit (ustr '' @@'') (opt_comma_backslash_ds r5) of None \<Rightarrow> None
                   | Some r6 \<Rightarrow> Some (0x5C # ds)))))))"

text \<open>
  \<open>int(s)\<close> on a string: surrounding whitespace is dropped, then an optional sign and
  decimal digits, single underscores allowed between digits; anything else raises
  \<open>ValueError\<close> (here \<open>None\<close>). Decimal digits of other scripts, which \<open>int\<close> also accepts,
  are left out: the group \<open>start\<close> holds only a backslash and letters \<open>d\<close>.
\<close>

definition strip :: "ustr \<Rightarrow> ustr" where
  "strip s = rev (dropWhile isspace (rev (dropWhile isspace s)))"

definition is_digit :: "uchar \<Rightarrow> bool" where
  "is_digit c \<longleftrightarrow> 0x30 \<le> c \<and> c \<le> 0x39"

fun digits_ok :: "ustr \<Rightarrow> bool" where
  "digits_ok [] = False"
| "digits_ok [c] = is_digit c"
| "digits_ok (c # d # cs) =
     (is_digit c \<and> (if d = 0x5F then digits_ok cs else digits_ok (d # cs)))"

definition digits_value :: "ustr \<Rightarrow> int" where
  "digits_value s = foldl (\<lambda>acc c. 10 * acc + (int c - 0x30)) 0 (filter is_digit s)"

definition py_int :: "ustr \<Rightarrow> int option" where
  "py_int s =
     (let t = strip s;
          neg = startswith t [0x2D];
          body = (if startswith t [0x2D] \<or> startswith t [0x2B] then drop 1 t else t)
      in if digits_ok body then Some (if neg then - digits_value body else digits_value body)
         else None)"

type_synonym DiffRow = "ustr \<times> int \<times> ustr"

fun parse_loop :: "ustr option \<Rightarrow> int option \<Rightarrow> DiffRow list \<Rightarrow> ustr list \<Rightarrow> exn + DiffRow list" where
  "parse_loop current_path new_line rows [] = Inr rows"
| "parse_loop current_path new_line rows (raw # rest) =
     (case DIFF_HEADER_RE_match raw of
        Some new_group \<Rightarrow>
          (case shlex_split raw of
             Inl e \<Rightarrow> Inl e
           | Inr parts \<Rightarrow>
               parse_loop (Some (if length parts \<ge> 4 then parts ! 3 else new_group)) None rows rest)
      | None \<Rightarrow>
     (case HUNK_RE_match raw of
        Some start \<Rightarrow>
          (case py_int start of
             None \<Rightarrow> Inl ValueError
           | Some n \<Rightarrow> parse_loop current_path (Some n) rows rest)
      | None \<Rightarrow>
     (case current_path of
        None \<Rightarrow> parse_loop current_path new_line rows rest
      | Some p \<Rightarrow>
     (case new_line of
        None \<Rightarrow> parse_loop current_path new_line rows rest
      | Some n \<Rightarrow>
          if startswith raw (ustr ''+++ '') \<or> startswith raw (ustr ''--- '') then
            parse_loop current_path new_line rows rest
          else if startswith raw ([0x5C] @ ustr '' No newline at end of file'') then
            parse_loop current_path new_line rows rest
          else if startswith raw (ustr ''+'') then
            parse_loop current_path (Some (n + 1)) (rows @ [(p, n, drop 1 raw)]) rest
          else if startswith raw (ustr ''-'') then
            parse_loop current_path new_line rows rest
          else if startswith raw (ustr '' '') then
            parse_loop current_path (Some (n + 1)) rows rest
          else parse_loop current_path new_line rows rest))))"

definition parse_diff_added_lines :: "ustr \<Rightarrow> exn + DiffRow list" where
  "parse_diff_added_lines diff_text = parse_loop None None [] (splitlines diff_text)"

section \<open>BinaryHeuristic\<close>

text \<open>
  A Python \<open>float\<close> is an IEEE 754 binary64 number. \<open>n / m\<close> on integers is the exact
  quotient rounded to the nearest such number, ties to even, and the literal \<open>0.3\<close> is the
  binary64 number nearest to three tenths. \<open>round_double\<close> is that rounding for
  \<open>0 \<le> x < 2\<close> (the quotients that arise here are at most one, and far above the
  subnormal range): with \<open>k\<close> the least number such that \<open>1 \<le> x * 2 ^ k\<close>, the value is
  rounded to a multiple of \<open>2 ^ - (52 + k)\<close>. A float is modelled by the rational it
  denotes.
\<close>

function binade :: "nat \<Rightarrow> nat \<Rightarrow> nat \<Rightarrow> nat" where
  "binade a b k = (if a = 0 \<or> b \<le> a * 2 ^ k then k else binade a b (Suc k))"
  by pat_completeness auto
termination
proof (relation "measure (\<lambda>(a, b, k). b - a * 2 ^ k)")
  show "wf (measure (\<lambda>(a, b, k). b - a * 2 ^ k))" by simp
next
  fix a b k :: nat
  assume "\<not> (a = 0 \<or> b \<le> a * 2 ^ k)"
  then have "0 < a * 2 ^ k" "a * 2 ^ k < b" by simp_all
  moreover have "a * 2 ^ Suc k = a * 2 ^ k + a * 2 ^ k" by simp
  ultimately have "b - a * 2 ^ Suc k < b - a * 2 ^ k" by linarith
  then show "((a, b, Suc k), (a, b, k)) \<in> measure (\<lambda>(a, b, k). b - a * 2 ^ k)" by simp
qed

definition round_half_even :: "rat \<Rightarrow> int" where
  "round_half_even z =
     (let f = \<lfloor>z\<rfloor>; r = z - of_int f
      in if r < 1 / 2 then f else if 1 / 2 < r then f + 1 else if even f then f else f + 1)"

definition round_double :: "rat \<Rightarrow> rat" where
  "round_double x =
     (let (a, b) = quotient_of x;
          s = 2 ^ (52 + binade (nat a) (nat b) 0)
      in of_int (round_half_even (x * s)) / s)"

definition py_truediv :: "int \<Rightarrow> int \<Rightarrow> exn + rat" where
  "py_truediv n m = (if m = 0 then Inl ZeroDivisionError else Inr (round_double (of_int n / of_int m)))"

definition float_0_3 :: rat where
  "float_0_3 = round_double (3 / 10)"

type_synonym byte = "8 word"

definition nontext_byte :: "byte \<Rightarrow> bool" where
  "nontext_byte b \<longleftrightarrow> b < 9 \<or> (13 < b \<and> b < 32) \<or> b = 127"

definition is_probably_binary :: "byte list \<Rightarrow> exn + bool" where
  "is_probably_binary data =
     (if 0 \<in> set data then Inr True
      else let sample = take 4096 data
           in if sample = [] then Inr False
              else let nontext = int (length (filter nontext_byte sample))
                   in (case py_truediv nontext (int (length sample)) of
                         Inl e \<Rightarrow> Inl e
                       | Inr q \<Rightarrow> Inr (float_0_3 < q)))"

section \<open>RepositoryGateway\<close>

text \<open>
  What the program reads from outside is a parameter of the model: the working directory
  (\<open>Path.cwd().resolve()\<close>), the result of each \<open>git\<close> command run in a directory, and
  the file system as \<open>pathlib\<close> shows it: \<open>resolve\<close>, the join \<open>root / rel\<close>, \<open>is_file\<close>,
  \<open>p.relative_to(root).as_posix()\<close> (\<open>None\<close> where it raises \<open>ValueError\<close>: the path is
  not below the root), \<open>read_bytes\<close> (\<open>None\<close> where it raises \<open>OSError\<close>), and the decoding
  of bytes as UTF-8 with replacement characters for invalid sequences (which is what
  \<open>_scan_file\<close> obtains, with or without its fallback). Paths are strings.
\<close>

record CompletedProcess =
  returncode :: int
  stdout :: ustr
  stderr :: ustr

record world =
  cwd :: ustr
  git :: "ustr \<Rightarrow> ustr list \<Rightarrow> CompletedProcess"
  resolve :: "ustr \<Rightarrow> ustr"
  joinpath :: "ustr \<Rightarrow> ustr \<Rightarrow> ustr"
  is_file :: "ustr \<Rightarrow> bool"
  relative_to :: "ustr \<Rightarrow> ustr \<Rightarrow> ustr option"
  read_bytes :: "ustr \<Rightarrow> byte list option"
  decode_utf8 :: "byte list \<Rightarrow> ustr"

definition run_git :: "world \<Rightarrow> ustr \<Rightarrow> ustr list \<Rightarrow> CompletedProcess" where
  "run_git W repo_root args = git W repo_root args"

definition repo_root :: "world \<Rightarrow> ustr" where
  "repo_root W =
     (let proc = run_git W (cwd W) [ustr ''rev-parse'', ustr ''--show-toplevel'']
      in if returncode proc \<noteq> 0 then cwd W else resolve W (strip (stdout proc)))"

fun collect_lines :: "world \<Rightarrow> ustr \<Rightarrow> ustr list \<Rightarrow> ustr list" where
  "collect_lines W root_dir [] = []"
| "collect_lines W root_dir (l # ls) =
     (let rel = strip l
      in if rel = [] then collect_lines W root_dir ls
         else let p = resolve W (joinpath W root_dir rel)
              in if is_file W p then p # collect_lines W root_dir ls else collect_lines W root_dir ls)"

definition collect_untracked :: "world \<Rightarrow> ustr \<Rightarrow> ustr list" where
  "collect_untracked W root_dir =
     (let proc = run_git W root_dir [ustr ''ls-files'', ustr ''--others'', ustr ''--exclude-standard'']
      in if returncode proc \<noteq> 0 then [] else collect_lines W root_dir (splitlines (stdout proc)))"

definition collect_tracked_files :: "world \<Rightarrow> ustr \<Rightarrow> ustr list" where
  "collect_tracked_files W root_dir =
     (let proc = run_git W root_dir [ustr ''ls-files'']
      in if returncode proc \<noteq> 0 then [] else collect_lines W root_dir (splitlines (stdout proc)))"

section \<open>ScanOrchestrator\<close>

definition scan_file :: "unicodedata \<Rightarrow> world \<Rightarrow> ustr \<Rightarrow> ustr \<Rightarrow> exn + Finding list" where
  "scan_file U W root_dir file_path =
     (case relative_to W (resolve W file_path) root_dir of
        None \<Rightarrow> Inl ValueError
      | Some rel \<Rightarrow>
     (case read_bytes W file_path of
        None \<Rightarrow> Inr []
      | Some data \<Rightarrow>
     (case is_probably_binary data of
        Inl e \<Rightarrow> Inl e
      | Inr binary \<Rightarrow> if binary then Inr [] else Inr (scan_text U rel (decode_utf8 W data) 1))))"

definition diff_proc :: "world \<Rightarrow> ustr \<Rightarrow> ustr list \<Rightarrow> CompletedProcess" where
  "diff_proc W root_dir diff_args =
     run_git W root_dir ([ustr ''diff'', ustr ''--no-color'', ustr ''--no-ext-diff'', ustr ''--no-prefix'',
                      ustr ''-U0''] @ diff_args)"

definition diff_message :: "CompletedProcess \<Rightarrow> ustr" where
  "diff_message proc =
     (if strip (stderr proc) \<noteq> [] then strip (stderr proc) else ustr ''git diff failed'')"

definition findings_of_rows :: "unicodedata \<Rightarrow> DiffRow list \<Rightarrow> Finding list" where
  "findings_of_rows U rows =
     concat (map (\<lambda>(p, line_no, added_line).
                    map (\<lambda>f. \<lparr>path = path f, line = line_no, col = col f, codepoint = codepoint f,
                               name = name f, category = category f,
                               rendered_line = render_line added_line 240\<rparr>)
                        (scan_text U p added_line line_no))
                 rows)"

definition scan_git_diff :: "unicodedata \<Rightarrow> world \<Rightarrow> ustr \<Rightarrow> ustr list \<Rightarrow> exn + Finding list" where
  "scan_git_diff U W root_dir diff_args =
     (let proc = diff_proc W root_dir diff_args
      in if returncode proc \<noteq> 0 then Inl (RuntimeError (diff_message proc))
         else (case parse_diff_added_lines (stdout proc) of
                 Inl e \<Rightarrow> Inl e
               | Inr rows \<Rightarrow> Inr (findings_of_rows U rows)))"

fun scan_files :: "unicodedata \<Rightarrow> world \<Rightarrow> ustr \<Rightarrow> ustr list \<Rightarrow> exn + Finding list" where
  "scan_files U W root_dir [] = Inr []"
| "scan_files U W root_dir (p # ps) =
     (case scan_file U W root_dir p of
        Inl e \<Rightarrow> Inl e
      | Inr fs \<Rightarrow> (case scan_files U W root_dir ps of Inl e \<Rightarrow> Inl e | Inr gs \<Rightarrow> Inr (fs @ gs)))"

text \<open>
  \<open>findings.extend(step)\<close> inside the \<open>try\<close> block: the steps run in order, and the first
  exception ends the block.
\<close>

fun extend_findings :: "exn + Finding list \<Rightarrow> exn + Finding list \<Rightarrow> exn + Finding list" where
  "extend_findings (Inl e) step = Inl e"
| "extend_findings (Inr fs) (Inl e) = Inl e"
| "extend_findings (Inr fs) (Inr gs) = Inr (fs @ gs)"

text \<open>
  The parsed command line: \<open>--all\<close>, \<open>--staged\<close> and \<open>--base REF\<close>. An empty \<open>REF\<close> is
  falsy in \<open>elif args.base\<close>, like an absent one.
\<close>

record args =
  arg_all :: bool
  arg_staged :: bool
  arg_base :: "ustr option"

definition base_given :: "args \<Rightarrow> bool" where
  "base_given a \<longleftrightarrow> (case arg_base a of None \<Rightarrow> False | Some b \<Rightarrow> b \<noteq> [])"

definition collect_findings :: "unicodedata \<Rightarrow> world \<Rightarrow> ustr \<Rightarrow> args \<Rightarrow> exn + Finding list" where
  "collect_findings U W root_dir a =
     (if arg_all a then scan_files U W root_dir (collect_tracked_files W root_dir)
      else if base_given a then
        (case arg_base a of
           Some b \<Rightarrow> scan_git_diff U W root_dir [b @ ustr ''...HEAD'']
         | None \<Rightarrow> Inr [])
      else if arg_staged a then
        extend_findings (scan_git_diff U W root_dir [ustr ''--cached''])
               (scan_files U W root_dir (collect_untracked W root_dir))
      else
        extend_findings (extend_findings (scan_git_diff U W root_dir [ustr ''--cached'']) (scan_git_diff U W root_dir []))
               (scan_files U W root_dir (collect_untracked W root_dir)))"

text \<open>
  The outcome of \<open>main\<close>: the exit code and what was printed on the two streams, line by
  line (the text of a line is not modelled, only which line it is). \<open>Inl\<close> is an exception
  that \<open>main\<close> does not catch.
\<close>

datatype printed = OK_line | FAIL_line | Finding_line Finding | ERROR_line ustr

record outcome =
  exit_code :: int
  printed_stdout :: "printed list"
  printed_stderr :: "printed list"

definition main :: "unicodedata \<Rightarrow> world \<Rightarrow> args \<Rightarrow> exn + outcome" where
  "main U W a =
     (case collect_findings U W (repo_root W) a of
        Inl (RuntimeError msg) \<Rightarrow>
          Inr \<lparr>exit_code = 2, printed_stdout = [], printed_stderr = [ERROR_line msg]\<rparr>
      | Inl e \<Rightarrow> Inl e
      | Inr findings \<Rightarrow>
          if findings = [] then Inr \<lparr>exit_code = 0, printed_stdout = [OK_line], printed_stderr = []\<rparr>
          else Inr \<lparr>exit_code = 1, printed_stdout = FAIL_line # map Finding_line findings,
                    printed_stderr = []\<rparr>)"

section \<open>Concrete inputs\<close>

text \<open>
  A fragment of the Unicode tables, enough for the examples: the control characters (Cc),
  the zero width space (Cf) and the lowercase ASCII letters (Ll).
\<close>

definition sample_unicodedata :: unicodedata where
  "sample_unicodedata =
     \<lparr>ucd_category = (\<lambda>c. if c < 0x20 \<or> (0x7F \<le> c \<and> c < 0xA0) then ''Cc''
                           else if c = 0x200B then ''Cf''
                           else if 0x61 \<le> c \<and> c \<le> 0x7A then ''Ll'' else ''Cn''),
      ucd_name = (\<lambda>c. if c = 0x200B then Some ''ZERO WIDTH SPACE'' else None)\<rparr>"

text \<open>The unified diff of the specification's example, each line ended by a line feed.\<close>

definition example_diff :: ustr where
  "example_diff =
     ustr ''diff --git a.txt b.txt'' @ [0x0A] @ ustr ''@@ -1,2 +1,3 @@'' @ [0x0A] @
     ustr ''-old'' @ [0x0A] @ ustr ''+new1'' @ [0x0A] @ ustr ''+new2'' @ [0x0A] @
     ustr '' context'' @ [0x0A]"

text \<open>
  A small repository for the examples: its root is \<open>/repo\<close>, every listed path is a file
  below the root, and every file holds the four bytes \<open>abc\<close> and 0x1F. The bytes are ASCII,
  which UTF-8 decodes byte by byte. The \<open>git\<close> commands either succeed (one file \<open>f.txt\<close>,
  empty diffs) or fail with status 128, as the name of each variant says.
\<close>

definition proc_ok :: "ustr \<Rightarrow> CompletedProcess" where
  "proc_ok out = \<lparr>returncode = 0, stdout = out, stderr = []\<rparr>"

definition proc_fatal :: CompletedProcess where
  "proc_fatal = \<lparr>returncode = 128, stdout = [], stderr = ustr ''fatal: bad revision'' @ [0x0A]\<rparr>"

definition git_ok :: "ustr list \<Rightarrow> CompletedProcess" where
  "git_ok args =
     (if take 1 args = [ustr ''diff''] then proc_ok []
      else if take 1 args = [ustr ''rev-parse''] then proc_ok (ustr ''/repo'' @ [0x0A])
      else proc_ok (ustr ''f.txt'' @ [0x0A]))"

definition git_unstaged_fails :: "ustr list \<Rightarrow> CompletedProcess" where
  "git_unstaged_fails args =
     (if take 1 args = [ustr ''diff''] \<and> drop 5 args \<noteq> [ustr ''--cached''] then proc_fatal
      else git_ok args)"

definition git_listing_fails :: "ustr list \<Rightarrow> CompletedProcess" where
  "git_listing_fails args =
     (if take 1 args = [ustr ''ls-files''] then proc_fatal else git_ok args)"

definition git_fails :: "ustr list \<Rightarrow> CompletedProcess" where
  "git_fails args = proc_fatal"

definition sample_world :: "(ustr list \<Rightarrow> CompletedProcess) \<Rightarrow> world" where
  "sample_world g =
     \<lparr>cwd = ustr ''/repo'', git = (\<lambda>dir args. g args), resolve = (\<lambda>p. p),
      joinpath = (\<lambda>a b. a @ ustr ''/'' @ b), is_file = (\<lambda>p. True),
      relative_to = (\<lambda>p r. lit (r @ ustr ''/'') p),
      read_bytes = (\<lambda>p. Some [0x61, 0x62, 0x63, 0x1F]), decode_utf8 = map unat\<rparr>"

definition mode_all :: args where
  "mode_all = \<lparr>arg_all = True, arg_staged = False, arg_base = None\<rparr>"
definition mode_staged :: args where
  "mode_staged = \<lparr>arg_all = False, arg_staged = True, arg_base = None\<rparr>"
definition mode_default :: args where
  "mode_default = \<lparr>arg_all = False, arg_staged = False, arg_base = None\<rparr>"
definition mode_base :: args where
  "mode_base = \<lparr>arg_all = False, arg_staged = False, arg_base = Some (ustr ''main'')\<rparr>"

definition sample_finding :: Finding where
  "sample_finding = \<lparr>path = ustr ''f.txt'', line = 1, col = 4, codepoint = 0x1F, name = ''UNKNOWN'',
      category = ''Cc'', rendered_line = ustr ''abc'' @ [0x5C] @ ustr ''x1f''\<rparr>"

section \<open>Properties\<close>

subsection \<open>Evaluation lemmas\<close>

lemmas matcher_defs = DIFF_HEADER_RE_match_def HUNK_RE_match_def lit_def plus1_def
  backslash_ds_def opt_comma_backslash_ds_def dots_to_eol_def strip_final_lf_def startswith_def

lemmas classifier_defs = is_forbidden_char_def ALLOWED_WHITESPACE_def isspace_def
  is_in_variation_selector_range_def VARIATION_SELECTOR_RANGES_def ord_def

lemma hex_fixed_2: "hex_fixed 2 n = [hexdigit (n div 16 mod 16), hexdigit (n mod 16)]"
proof -
  have e: "(2::nat) = Suc (Suc 0)" by simp
  show ?thesis unfolding e by simp
qed

lemma hex_fixed_4:
  "hex_fixed 4 n = [hexdigit (n div 16 div 16 div 16 mod 16), hexdigit (n div 16 div 16 mod 16),
                    hexdigit (n div 16 mod 16), hexdigit (n mod 16)]"
proof -
  have e: "(4::nat) = Suc (Suc (Suc (Suc 0)))" by simp
  show ?thesis unfolding e by simp
qed

lemma splitlines_example_diff:
  "splitlines example_diff =
     [ustr ''diff --git a.txt b.txt'', ustr ''@@ -1,2 +1,3 @@'', ustr ''-old'', ustr ''+new1'',
      ustr ''+new2'', ustr '' context'']"
  by (simp add: example_diff_def splitlines_def is_linebreak_def ustr_def)

lemma header_example: "DIFF_HEADER_RE_match (ustr ''diff --git a.txt b.txt'') = Some (ustr ''b.txt'')"
  by (simp add: matcher_defs ustr_def)

lemma shlex_example:
  "shlex_split (ustr ''diff --git a.txt b.txt'') =
     Inr [ustr ''diff'', ustr ''--git'', ustr ''a.txt'', ustr ''b.txt'']"
  by (simp add: shlex_split_def shlex_whitespace_def shlex_quote_def ustr_def)

subsection \<open>Rounding to binary64 and the threshold\<close>

lemma round_half_even_error: "\<bar>of_int (round_half_even z) - z\<bar> \<le> 1 / 2"
proof -
  define f where "f = \<lfloor>z\<rfloor>"
  define r where "r = z - of_int f"
  have r: "0 \<le> r" "r < 1" unfolding r_def f_def by linarith+
  have z: "z = of_int f + r" by (simp add: r_def)
  have "round_half_even z = (if r < 1 / 2 then f else if 1 / 2 < r then f + 1 else if even f then f else f + 1)"
    by (simp add: round_half_even_def Let_def f_def r_def)
  then consider "round_half_even z = f" "r \<le> 1 / 2" | "round_half_even z = f + 1" "1 / 2 \<le> r"
    by (cases "r < 1 / 2"; cases "1 / 2 < r"; cases "even f") auto
  then show ?thesis
  proof cases
    case 1
    then show ?thesis using r unfolding z by simp
  next
    case 2
    then show ?thesis using r unfolding z by simp
  qed
qed

lemma round_double_error: "\<bar>round_double x - x\<bar> \<le> 1 / 2 ^ 53"
proof -
  define k where "k = binade (nat (fst (quotient_of x))) (nat (snd (quotient_of x))) 0"
  define s :: rat where "s = 2 ^ (52 + k)"
  have rd: "round_double x = of_int (round_half_even (x * s)) / s"
    by (simp add: round_double_def Let_def case_prod_beta k_def s_def)
  have "s = 2 ^ 52 * 2 ^ k" by (simp only: s_def power_add)
  moreover have "(1::rat) \<le> 2 ^ k" by simp
  ultimately have s52: "(2::rat) ^ 52 \<le> s" by simp
  then have s0: "0 < s" by (simp add: s_def)
  define d where "d = of_int (round_half_even (x * s)) - x * s"
  have d: "\<bar>d\<bar> \<le> 1 / 2" unfolding d_def by (rule round_half_even_error)
  have "round_double x - x = d / s" using s0 by (simp add: rd d_def diff_divide_distrib)
  then have "\<bar>round_double x - x\<bar> = \<bar>d\<bar> / s" using s0 by simp
  also have "\<dots> \<le> (1 / 2) / s" using d s0 by (simp only: divide_right_mono less_imp_le)
  also have "\<dots> \<le> (1 / 2) / 2 ^ 52" using s52 by (intro divide_left_mono) simp_all
  also have "\<dots> = 1 / 2 ^ 53" by simp
  finally show ?thesis .
qed

lemma ratio_gap:
  fixes a b m :: int
  assumes "0 < m" "m \<le> 4096" "a < b"
  shows "(of_int a :: rat) / (10 * of_int m) + 1 / 40960 \<le> of_int b / (10 * of_int m)"
proof -
  have m: "(0::rat) < 10 * of_int m" "(10 * of_int m :: rat) \<le> 40960" using assms by simp_all
  have "a + 1 \<le> b" using assms by simp
  then have "(of_int (a + 1) :: rat) \<le> of_int b" by (simp only: of_int_le_iff)
  then have "(of_int a + 1 :: rat) / (10 * of_int m) \<le> of_int b / (10 * of_int m)"
    using m by (simp add: divide_right_mono)
  moreover have "(1::rat) / 40960 \<le> 1 / (10 * of_int m)"
    using m by (intro divide_left_mono) simp_all
  moreover have "(of_int a + 1 :: rat) / (10 * of_int m) = of_int a / (10 * of_int m) + 1 / (10 * of_int m)"
    by (simp add: add_divide_distrib)
  ultimately show ?thesis by linarith
qed

lemma threshold_exact:
  fixes n m :: int
  assumes "0 < m" "m \<le> 4096"
  shows "float_0_3 < round_double (of_int n / of_int m) \<longleftrightarrow> 3 * m < 10 * n"
proof -
  define x :: rat where "x = of_int n / of_int m"
  have p: "(1::rat) / 2 ^ 53 = 1 / 9007199254740992" by simp
  have e1: "\<bar>round_double x - x\<bar> \<le> 1 / 9007199254740992"
    using round_double_error [of x] unfolding p .
  have e2: "\<bar>float_0_3 - 3 / 10\<bar> \<le> 1 / 9007199254740992"
    using round_double_error [of "3 / 10"] unfolding p float_0_3_def .
  have m0: "(of_int m :: rat) \<noteq> 0" using assms by simp
  have x: "x = of_int (10 * n) / (10 * of_int m)" by (simp add: x_def)
  have c: "(3 / 10 :: rat) = of_int (3 * m) / (10 * of_int m)" using m0 by simp
  consider "3 * m < 10 * n" | "3 * m = 10 * n" | "10 * n < 3 * m" by linarith
  then have "float_0_3 < round_double x \<longleftrightarrow> 3 * m < 10 * n"
  proof cases
    case 1
    from ratio_gap [OF assms this] have "3 / 10 + 1 / 40960 \<le> x" unfolding x c .
    with e1 e2 have "float_0_3 < round_double x" by linarith
    with 1 show ?thesis by simp
  next
    case 2
    then have "x = 3 / 10" unfolding x c by simp
    then have "round_double x = float_0_3" by (simp only: float_0_3_def)
    with 2 show ?thesis by simp
  next
    case 3
    from ratio_gap [OF assms this] have "x + 1 / 40960 \<le> 3 / 10" unfolding x c .
    with e1 e2 have "round_double x < float_0_3" by linarith
    with 3 show ?thesis by simp
  qed
  then show ?thesis by (simp only: x_def)
qed


lemma nontext_byte_unat:
  "nontext_byte b \<longleftrightarrow> unat b < 9 \<or> (13 < unat b \<and> unat b < 32) \<or> unat b = 127"
proof -
  have "b = 127 \<longleftrightarrow> unat b = unat (127 :: byte)" by (simp only: word_unat_eq_iff)
  then show ?thesis by (simp add: nontext_byte_def word_less_nat_alt)
qed

lemma is_probably_binary_eq:
  "is_probably_binary data =
     Inr (if 0 \<in> set data then True
          else if take 4096 data = [] then False
          else 3 * int (length (take 4096 data)) <
               10 * int (length (filter nontext_byte (take 4096 data))))"
proof -
  define sample where "sample = take 4096 data"
  have len: "length sample \<le> 4096" by (simp add: sample_def)
  show ?thesis
  proof (cases "0 \<in> set data \<or> sample = []")
    case True
    then show ?thesis by (auto simp add: is_probably_binary_def sample_def Let_def)
  next
    case False
    then have m: "0 < int (length sample)" "int (length sample) \<le> 4096" using len by simp_all
    have "float_0_3 < round_double (of_int (int (length (filter nontext_byte sample))) / of_int (int (length sample)))
          \<longleftrightarrow> 3 * int (length sample) < 10 * int (length (filter nontext_byte sample))"
      by (rule threshold_exact [OF m])
    with False m show ?thesis
      by (simp add: is_probably_binary_def py_truediv_def Let_def flip: sample_def)
  qed
qed

subsection \<open>CodepointClassifier\<close>

text \<open>
  C4. \<open>is_forbidden\<close> applies the five ordered rules: a character of the allowed whitespace
  set (space, tab, line feed, carriage return) is never forbidden; any other character is
  forbidden exactly when it is whitespace, or lies in U+FE00..U+FE0F or U+E0100..U+E01EF,
  or has general category Cc or Cf, or is U+034F. The function is total: it has a value for
  every character and every category table.
\<close>

theorem is_forbidden_char_rules:
  "is_forbidden_char U ch \<longleftrightarrow>
     ch \<notin> {0x20, 0x09, 0x0A, 0x0D} \<and>
     (isspace ch \<or> (0xFE00 \<le> ch \<and> ch \<le> 0xFE0F) \<or> (0xE0100 \<le> ch \<and> ch \<le> 0xE01EF) \<or>
      ucd_category U ch = ''Cc'' \<or> ucd_category U ch = ''Cf'' \<or> ch = 0x034F)"
  by (auto simp add: is_forbidden_char_def ALLOWED_WHITESPACE_def
      is_in_variation_selector_range_def VARIATION_SELECTOR_RANGES_def ord_def)

subsection \<open>BinaryHeuristic\<close>

text \<open>
  C6. \<open>looks_binary\<close> never raises. It is true when a NUL byte occurs anywhere; otherwise,
  on the sample of at most the first 4096 bytes, it is false when the sample is empty and
  otherwise true exactly when the fraction of sample bytes \<open>b\<close> with \<open>b < 9\<close>,
  \<open>13 < b < 32\<close> or \<open>b = 127\<close> is strictly greater than three tenths. The binary64
  division and comparison of the code agree with the exact fraction on every sample.
\<close>

theorem is_probably_binary_spec:
  "is_probably_binary data =
     Inr (if 0 \<in> set data then True
          else if take 4096 data = [] then False
          else (3 / 10 :: rat) <
               of_nat (length (filter (\<lambda>b. unat b < 9 \<or> (13 < unat b \<and> unat b < 32) \<or> unat b = 127)
                                      (take 4096 data)))
               / of_nat (length (take 4096 data)))"
proof -
  define n where "n = length (filter nontext_byte (take 4096 data))"
  define m where "m = length (take 4096 data)"
  have f: "filter (\<lambda>b. unat b < 9 \<or> (13 < unat b \<and> unat b < 32) \<or> unat b = 127) (take 4096 data)
           = filter nontext_byte (take 4096 data)"
    by (rule filter_cong) (simp_all add: nontext_byte_unat)
  have "(3 / 10 :: rat) < of_nat n / of_nat m \<longleftrightarrow> 3 * int m < 10 * int n" if "m \<noteq> 0"
  proof -
    have "(0::rat) < of_nat m" using that by simp
    then have "(3 / 10 :: rat) < of_nat n / of_nat m \<longleftrightarrow> (3 * of_nat m :: rat) < 10 * of_nat n"
      by (simp add: field_simps)
    also have "\<dots> \<longleftrightarrow> (of_int (3 * int m) :: rat) < of_int (10 * int n)" by simp
    also have "\<dots> \<longleftrightarrow> 3 * int m < 10 * int n" by (simp only: of_int_less_iff)
    finally show ?thesis .
  qed
  then show ?thesis
    unfolding is_probably_binary_eq f by (auto simp add: n_def m_def)
qed

theorem is_probably_binary_spec_witness:
  "is_probably_binary [1, 65, 66] = Inr True \<and>
   is_probably_binary [1, 2, 3, 65, 66, 67, 68, 69, 70, 71] = Inr False \<and>
   is_probably_binary [65, 0, 66, 67] = Inr True \<and>
   is_probably_binary [] = Inr False"
  by (simp add: is_probably_binary_spec)

subsection \<open>LineRenderer\<close>

text \<open>
  C9, as stated, fails twice. The line \<open>...\<close> is rendered unchanged and so ends with the
  marker although its escaped form is not longer than 240; and with a maximal length of 2
  the line \<open>abcd\<close> is rendered as six characters.
\<close>

theorem render_line_marker_counterexample:
  "endswith (render_line (ustr ''...'') 240) (ustr ''...'') \<and>
   \<not> 240 < int (length (unicode_escape (ustr ''...''))) \<and>
   \<not> int (length (render_line (ustr ''abcd'') 2)) \<le> 2"
  by (simp add: endswith_def render_line_def unicode_escape_def escape_char_def ustr_def slice_to_def)

text \<open>
  C9, amended. For a maximal length of at least 3 (the default is 240) the rendered line has
  at most that many characters; when the escaped form is longer, the result is its first
  \<open>max_len - 3\<close> characters followed by \<open>...\<close>; otherwise it is the escaped form unchanged.
\<close>

theorem render_line_bounded:
  assumes "3 \<le> max_len"
  shows "int (length (render_line l max_len)) \<le> max_len \<and>
         (if max_len < int (length (unicode_escape l))
          then render_line l max_len = take (nat (max_len - 3)) (unicode_escape l) @ ustr ''...''
               \<and> endswith (render_line l max_len) (ustr ''...'')
          else render_line l max_len = unicode_escape l)"
  using assms by (auto simp add: render_line_def Let_def slice_to_def ustr_def endswith_def)

theorem render_line_bounded_witness:
  "(3::int) \<le> 5 \<and> render_line (ustr ''abcdef'') 5 = ustr ''ab...'' \<and>
   render_line (ustr ''abcde'') 5 = ustr ''abcde''"
  using render_line_bounded [of 5 "ustr ''abcdef''"] render_line_bounded [of 5 "ustr ''abcde''"]
  by (simp add: unicode_escape_def escape_char_def ustr_def)

subsection \<open>TextScanner\<close>

text \<open>
  C5. With the zero width space in category Cf and the lowercase ASCII letters in category
  Ll, as the Unicode tables have them, \<open>scan\<close> of \<open>safe\<close>, U+200B, \<open>danger\<close> from line 1
  yields exactly one Finding: line 1, column 5, code point 0x200B.
\<close>

theorem scan_text_zero_width_space:
  assumes "ucd_category U 0x200B = ''Cf''"
    and "\<forall>c. 0x61 \<le> c \<and> c \<le> 0x7A \<longrightarrow> ucd_category U c = ''Ll''"
  shows "scan_text U p (ustr ''safe'' @ [0x200B] @ ustr ''danger'') 1 =
     [\<lparr>path = p, line = 1, col = 5, codepoint = 0x200B,
       name = unicodedata_name U 0x200B ''UNKNOWN'', category = ''Cf'',
       rendered_line = ustr ''safe'' @ [0x5C] @ ustr ''u200bdanger''\<rparr>]"
  using assms
  by (simp add: scan_text_def scan_line_def splitlines_def is_linebreak_def ustr_def
      classifier_defs render_line_def unicode_escape_def escape_char_def
      hexdigit_def slice_to_def hex_fixed_4)

theorem scan_text_zero_width_space_witness:
  "scan_text sample_unicodedata (ustr ''a.txt'') (ustr ''safe'' @ [0x200B] @ ustr ''danger'') 1 =
     [\<lparr>path = ustr ''a.txt'', line = 1, col = 5, codepoint = 0x200B,
       name = ''ZERO WIDTH SPACE'', category = ''Cf'',
       rendered_line = ustr ''safe'' @ [0x5C] @ ustr ''u200bdanger''\<rparr>]"
  using scan_text_zero_width_space [of sample_unicodedata "ustr ''a.txt''"]
  by (simp add: sample_unicodedata_def unicodedata_name_def)

text \<open>
  C3. U+2028 LINE SEPARATOR is a forbidden character, yet in the text U+2028, U+00A0 it
  starts a new logical line and is itself never scanned: the only Finding is the no-break
  space, reported at line 2, column 1 (the claim has it at line 1, column 2, after a
  Finding for U+2028 at line 1, column 1).
\<close>

theorem scan_text_line_separator:
  "is_forbidden_char U 0x2028 \<and>
   scan_text U p [0x2028, 0xA0] 1 =
     [\<lparr>path = p, line = 2, col = 1, codepoint = 0xA0, name = unicodedata_name U 0xA0 ''UNKNOWN'',
       category = ucd_category U 0xA0, rendered_line = [0x5C] @ ustr ''xa0''\<rparr>]"
  by (simp add: scan_text_def scan_line_def splitlines_def is_linebreak_def ustr_def
      classifier_defs render_line_def unicode_escape_def escape_char_def
      hexdigit_def slice_to_def hex_fixed_2)

subsection \<open>DiffParser\<close>

text \<open>
  C1. On the specification's example diff the parser returns no row at all, not the two
  rows \<open>(b.txt, 1, new1)\<close> and \<open>(b.txt, 2, new2)\<close>: the hunk header \<open>@@ -1,2 +1,3 @@\<close> does
  not match \<open>_HUNK_RE\<close>, whose doubled backslashes ask for a literal backslash after
  \<open>@@ -\<close>, so the line counter is never set and every added line is skipped.
\<close>

theorem parse_diff_added_lines_example:
  "parse_diff_added_lines example_diff = Inr [] \<and>
   parse_diff_added_lines example_diff \<noteq>
     Inr [(ustr ''b.txt'', 1, ustr ''new1''), (ustr ''b.txt'', 2, ustr ''new2'')]"
proof -
  have "parse_diff_added_lines example_diff = Inr []"
    unfolding parse_diff_added_lines_def splitlines_example_diff
    by (simp add: header_example shlex_example) (simp add: matcher_defs ustr_def)
  then show ?thesis by simp
qed

text \<open>
  C10. On the one-line diff \<open>diff --git it's.txt its.txt\<close> (the header of a rename) the
  parser raises \<open>ValueError\<close>: the line matches \<open>_DIFF_HEADER_RE\<close>, and \<open>shlex.split\<close> finds
  a quote that is never closed.
\<close>

theorem parse_diff_added_lines_unbalanced_quote:
  "parse_diff_added_lines (ustr ''diff --git it'' @ [0x27] @ ustr ''s.txt its.txt'') = Inl ValueError"
  by (simp add: parse_diff_added_lines_def splitlines_def is_linebreak_def ustr_def matcher_defs
      shlex_split_def shlex_whitespace_def shlex_quote_def)

subsection \<open>The parser never sets the line counter\<close>

lemma dropWhile_keeps_last: "\<not> P c \<Longrightarrow> \<exists>ys. dropWhile P (xs @ [c]) = ys @ [c]"
  by (induction xs) auto

lemma strip_keeps_head:
  assumes "\<not> isspace c"
  shows "\<exists>ds'. strip (c # ds) = c # ds'"
proof -
  obtain ys where "dropWhile isspace (rev ds @ [c]) = ys @ [c]"
    using dropWhile_keeps_last [of isspace c "rev ds"] assms by blast
  then show ?thesis using assms by (simp add: strip_def)
qed

lemma py_int_backslash: "py_int (0x5C # ds) = None"
proof -
  have "\<not> isspace 0x5C" by (simp add: isspace_def)
  then obtain ds' where s: "strip (0x5C # ds) = 0x5C # ds'" using strip_keeps_head by blast
  have "\<not> digits_ok (0x5C # ds')" by (cases ds') (simp_all add: is_digit_def)
  then show ?thesis by (simp add: py_int_def s Let_def startswith_def)
qed

lemma HUNK_RE_match_backslash: "HUNK_RE_match raw = Some g \<Longrightarrow> \<exists>ds. g = 0x5C # ds"
  by (auto simp add: HUNK_RE_match_def split: option.splits if_splits prod.splits)

lemma parse_loop_no_counter:
  "parse_loop cp None rows ls = Inr out \<Longrightarrow> out = rows"
proof (induction ls arbitrary: cp)
  case Nil
  then show ?case by simp
next
  case (Cons raw rest)
  show ?case
  proof (cases "DIFF_HEADER_RE_match raw")
    case (Some new_group)
    with Cons show ?thesis by (auto split: sum.splits)
  next
    case None
    show ?thesis
    proof (cases "HUNK_RE_match raw")
      case (Some start)
      then obtain ds where "start = 0x5C # ds" using HUNK_RE_match_backslash by blast
      then have "py_int start = None" by (simp only: py_int_backslash)
      with Cons.prems None Some show ?thesis by simp
    next
      case n: None
      with Cons None show ?thesis by (auto split: option.splits)
    qed
  qed
qed

lemma parse_diff_added_lines_no_rows: "parse_diff_added_lines t = Inr rows \<Longrightarrow> rows = []"
  unfolding parse_diff_added_lines_def by (rule parse_loop_no_counter)


lemma enumerate_from_lower: "(j, x) \<in> set (enumerate_from i xs) \<Longrightarrow> i \<le> j"
  by (induction xs arbitrary: i) (auto, force)

lemma scan_line_invariant:
  "f \<in> set (scan_line U p i l) \<Longrightarrow> line f = i \<and> 1 \<le> col f \<and> 0 \<le> codepoint f"
  by (auto simp add: scan_line_def ord_def dest: enumerate_from_lower)

lemma scan_text_invariant:
  assumes "f \<in> set (scan_text U p t start_line)"
  shows "start_line \<le> line f \<and> 1 \<le> col f \<and> 0 \<le> codepoint f"
proof -
  from assms obtain i l where il: "(i, l) \<in> set (enumerate_from start_line (splitlines t))"
    and f: "f \<in> set (scan_line U p i l)"
    by (auto simp add: scan_text_def)
  from il have "start_line \<le> i" by (rule enumerate_from_lower)
  with scan_line_invariant [OF f] show ?thesis by simp
qed

lemma findings_of_rows_invariant:
  assumes "f \<in> set (findings_of_rows U rows)" and "\<forall>(p, n, t) \<in> set rows. 1 \<le> n"
  shows "1 \<le> line f \<and> 1 \<le> col f \<and> 0 \<le> codepoint f"
proof -
  from assms(1) obtain p n t g where r: "(p, n, t) \<in> set rows"
    and g: "g \<in> set (scan_text U p t n)"
    and f: "line f = n" "col f = col g" "codepoint f = codepoint g"
    by (auto simp add: findings_of_rows_def)
  from r assms(2) have "1 \<le> n" by auto
  with scan_text_invariant [OF g] f show ?thesis by simp
qed

lemma scan_file_invariant:
  assumes "scan_file U W root_dir fp = Inr fs" and "f \<in> set fs"
  shows "1 \<le> line f \<and> 1 \<le> col f \<and> 0 \<le> codepoint f"
proof -
  from assms obtain rel data where "f \<in> set (scan_text U rel (decode_utf8 W data) 1)"
    by (auto simp add: scan_file_def split: option.splits sum.splits if_splits)
  from scan_text_invariant [OF this] show ?thesis by simp
qed

lemma scan_files_invariant:
  "scan_files U W root_dir ps = Inr fs \<Longrightarrow> f \<in> set fs \<Longrightarrow>
     1 \<le> line f \<and> 1 \<le> col f \<and> 0 \<le> codepoint f"
proof (induction ps arbitrary: fs)
  case Nil
  then show ?case by simp
next
  case (Cons p ps)
  from Cons.prems(1) obtain gs hs where g: "scan_file U W root_dir p = Inr gs"
    and h: "scan_files U W root_dir ps = Inr hs" and fs: "fs = gs @ hs"
    by (auto split: sum.splits)
  from Cons.prems(2) fs consider "f \<in> set gs" | "f \<in> set hs" by auto
  then show ?case
  proof cases
    case 1
    with g show ?thesis by (rule scan_file_invariant)
  next
    case 2
    with h show ?thesis by (rule Cons.IH)
  qed
qed

lemma scan_git_diff_invariant:
  assumes "scan_git_diff U W root_dir diff_args = Inr fs" and "f \<in> set fs"
  shows "1 \<le> line f \<and> 1 \<le> col f \<and> 0 \<le> codepoint f"
proof -
  from assms(1) obtain rows where r: "parse_diff_added_lines (stdout (diff_proc W root_dir diff_args)) = Inr rows"
    and fs: "fs = findings_of_rows U rows"
    by (auto simp add: scan_git_diff_def Let_def split: if_splits sum.splits)
  from r have "rows = []" by (rule parse_diff_added_lines_no_rows)
  then have "\<forall>(p, n, t) \<in> set rows. 1 \<le> n" by simp
  with assms(2) fs show ?thesis using findings_of_rows_invariant by blast
qed

lemma extend_findings_Inr:
  "extend_findings x y = Inr fs \<Longrightarrow> \<exists>gs hs. x = Inr gs \<and> y = Inr hs \<and> fs = gs @ hs"
  by (cases x; cases y) auto

subsection \<open>ScanOrchestrator\<close>

text \<open>
  C8. Every Finding that a run collects, in any mode and so on any scan path (files scanned
  in full, or added lines of a diff), has \<open>line \<ge> 1\<close>, \<open>col \<ge> 1\<close> and \<open>codepoint \<ge> 0\<close>.
\<close>

theorem findings_invariant:
  assumes "collect_findings U W root_dir a = Inr fs" and "f \<in> set fs"
  shows "1 \<le> line f \<and> 1 \<le> col f \<and> 0 \<le> codepoint f"
proof -
  consider (all) "arg_all a" | (base) "\<not> arg_all a" "base_given a"
    | (staged) "\<not> arg_all a" "\<not> base_given a" "arg_staged a"
    | (default) "\<not> arg_all a" "\<not> base_given a" "\<not> arg_staged a" by blast
  then show ?thesis
  proof cases
    case all
    with assms show ?thesis by (auto simp add: collect_findings_def dest: scan_files_invariant)
  next
    case base
    with assms show ?thesis
      by (auto simp add: collect_findings_def split: option.splits dest: scan_git_diff_invariant)
  next
    case staged
    with assms(1) obtain gs hs where "scan_git_diff U W root_dir [ustr ''--cached''] = Inr gs"
      "scan_files U W root_dir (collect_untracked W root_dir) = Inr hs" "fs = gs @ hs"
      by (auto simp add: collect_findings_def dest!: extend_findings_Inr)
    with assms(2) show ?thesis
      using scan_git_diff_invariant scan_files_invariant by (metis Un_iff set_append)
  next
    case default
    with assms(1) obtain gs1 gs2 hs where "scan_git_diff U W root_dir [ustr ''--cached''] = Inr gs1"
      "scan_git_diff U W root_dir [] = Inr gs2"
      "scan_files U W root_dir (collect_untracked W root_dir) = Inr hs" "fs = (gs1 @ gs2) @ hs"
      by (auto simp add: collect_findings_def dest!: extend_findings_Inr)
    with assms(2) show ?thesis
      using scan_git_diff_invariant scan_files_invariant by (metis Un_iff set_append)
  qed
qed


lemmas world_defs = sample_world_def git_ok_def git_unstaged_fails_def git_listing_fails_def
  git_fails_def proc_ok_def proc_fatal_def run_git_def diff_proc_def repo_root_def
  collect_tracked_files_def collect_untracked_def mode_all_def mode_staged_def mode_default_def
  mode_base_def base_given_def diff_message_def

lemmas text_defs = ustr_def strip_def isspace_def splitlines_def is_linebreak_def

lemma repo_root_sample:
  "repo_root (sample_world git_ok) = ustr ''/repo''"
  "repo_root (sample_world git_unstaged_fails) = ustr ''/repo''"
  "repo_root (sample_world git_listing_fails) = ustr ''/repo''"
  "repo_root (sample_world git_fails) = ustr ''/repo''"
  by (simp_all add: world_defs text_defs)

lemma scan_file_sample:
  "scan_file sample_unicodedata (sample_world g) (ustr ''/repo'') (ustr ''/repo/f.txt'') = Inr [sample_finding]"
  by (simp add: scan_file_def sample_world_def lit_def ustr_def is_probably_binary_eq nontext_byte_def
      scan_text_def scan_line_def splitlines_def is_linebreak_def classifier_defs
      sample_unicodedata_def unicodedata_name_def render_line_def unicode_escape_def escape_char_def
      hexdigit_def hex_fixed_2 sample_finding_def)

lemma tracked_sample:
  "collect_tracked_files (sample_world git_ok) (ustr ''/repo'') = [ustr ''/repo/f.txt'']"
  by (simp add: world_defs text_defs)

lemma untracked_sample:
  "collect_untracked (sample_world git_ok) (ustr ''/repo'') = [ustr ''/repo/f.txt'']"
  "collect_untracked (sample_world git_unstaged_fails) (ustr ''/repo'') = [ustr ''/repo/f.txt'']"
  "collect_untracked (sample_world git_listing_fails) (ustr ''/repo'') = []"
  by (simp_all add: world_defs text_defs)

lemma parse_empty: "parse_diff_added_lines [] = Inr []"
  by (simp add: parse_diff_added_lines_def splitlines_def)

lemma diff_sample:
  "scan_git_diff U (sample_world git_ok) (ustr ''/repo'') diff_args = Inr []"
  "scan_git_diff U (sample_world git_listing_fails) (ustr ''/repo'') diff_args = Inr []"
  "scan_git_diff U (sample_world git_unstaged_fails) (ustr ''/repo'') [ustr ''--cached''] = Inr []"
  "scan_git_diff U (sample_world git_unstaged_fails) (ustr ''/repo'') [] =
     Inl (RuntimeError (ustr ''fatal: bad revision''))"
  "scan_git_diff U (sample_world git_unstaged_fails) (ustr ''/repo'') [ustr ''main'' @ ustr ''...HEAD''] =
     Inl (RuntimeError (ustr ''fatal: bad revision''))"
  "scan_git_diff U (sample_world git_fails) (ustr ''/repo'') diff_args =
     Inl (RuntimeError (ustr ''fatal: bad revision''))"
  by (simp_all add: scan_git_diff_def world_defs parse_empty findings_of_rows_def text_defs)

theorem findings_invariant_witness:
  "collect_findings sample_unicodedata (sample_world git_ok) (ustr ''/repo'') mode_all = Inr [sample_finding] \<and>
   1 \<le> line sample_finding \<and> 1 \<le> col sample_finding \<and> 0 \<le> codepoint sample_finding"
proof -
  have c: "collect_findings sample_unicodedata (sample_world git_ok) (ustr ''/repo'') mode_all = Inr [sample_finding]"
    by (simp add: collect_findings_def mode_all_def tracked_sample scan_file_sample)
  from findings_invariant [OF c, of sample_finding] c show ?thesis by simp
qed


lemma scan_git_diff_fails:
  "returncode (diff_proc W root_dir diff_args) \<noteq> 0 \<Longrightarrow>
     scan_git_diff U W root_dir diff_args = Inl (RuntimeError (diff_message (diff_proc W root_dir diff_args)))"
  by (simp add: scan_git_diff_def)

lemma main_RuntimeError:
  "collect_findings U W (repo_root W) a = Inl (RuntimeError msg) \<Longrightarrow>
     main U W a = Inr \<lparr>exit_code = 2, printed_stdout = [], printed_stderr = [ERROR_line msg]\<rparr>"
  by (simp add: main_def)

text \<open>
  C7. The exit code is 0 with the single line OK when the collected findings are empty, and
  1 with the header and one line per Finding when they are not. When a diff command that
  the run executes exits nonzero (the range diff in BaseRef mode; the cached diff in Staged
  and Default mode; the working-tree diff in Default mode, which runs once the cached diff
  has been scanned), the exit code is 2, nothing is printed on the output stream, and the
  error stream has the message of the command.
\<close>

theorem main_exit_codes:
  "(collect_findings U W (repo_root W) a = Inr [] \<longrightarrow>
      main U W a = Inr \<lparr>exit_code = 0, printed_stdout = [OK_line], printed_stderr = []\<rparr>) \<and>
   (collect_findings U W (repo_root W) a = Inr fs \<and> fs \<noteq> [] \<longrightarrow>
      main U W a = Inr \<lparr>exit_code = 1, printed_stdout = FAIL_line # map Finding_line fs,
                         printed_stderr = []\<rparr>) \<and>
   (\<not> arg_all a \<and> arg_base a = Some b \<and> b \<noteq> [] \<and>
    returncode (diff_proc W (repo_root W) [b @ ustr ''...HEAD'']) \<noteq> 0 \<longrightarrow>
      main U W a = Inr \<lparr>exit_code = 2, printed_stdout = [],
        printed_stderr = [ERROR_line (diff_message (diff_proc W (repo_root W) [b @ ustr ''...HEAD'']))]\<rparr>) \<and>
   (\<not> arg_all a \<and> \<not> base_given a \<and>
    returncode (diff_proc W (repo_root W) [ustr ''--cached'']) \<noteq> 0 \<longrightarrow>
      main U W a = Inr \<lparr>exit_code = 2, printed_stdout = [],
        printed_stderr = [ERROR_line (diff_message (diff_proc W (repo_root W) [ustr ''--cached'']))]\<rparr>) \<and>
   (\<not> arg_all a \<and> \<not> base_given a \<and> \<not> arg_staged a \<and>
    scan_git_diff U W (repo_root W) [ustr ''--cached''] = Inr gs \<and>
    returncode (diff_proc W (repo_root W) []) \<noteq> 0 \<longrightarrow>
      main U W a = Inr \<lparr>exit_code = 2, printed_stdout = [],
        printed_stderr = [ERROR_line (diff_message (diff_proc W (repo_root W) []))]\<rparr>)"
proof (intro conjI impI)
  assume "collect_findings U W (repo_root W) a = Inr []"
  then show "main U W a = Inr \<lparr>exit_code = 0, printed_stdout = [OK_line], printed_stderr = []\<rparr>"
    by (simp add: main_def)
next
  assume "collect_findings U W (repo_root W) a = Inr fs \<and> fs \<noteq> []"
  then show "main U W a = Inr \<lparr>exit_code = 1, printed_stdout = FAIL_line # map Finding_line fs,
                         printed_stderr = []\<rparr>"
    by (simp add: main_def)
next
  assume h: "\<not> arg_all a \<and> arg_base a = Some b \<and> b \<noteq> [] \<and>
    returncode (diff_proc W (repo_root W) [b @ ustr ''...HEAD'']) \<noteq> 0"
  then have "collect_findings U W (repo_root W) a =
      Inl (RuntimeError (diff_message (diff_proc W (repo_root W) [b @ ustr ''...HEAD''])))"
    by (simp add: collect_findings_def base_given_def scan_git_diff_fails)
  then show "main U W a = Inr \<lparr>exit_code = 2, printed_stdout = [],
        printed_stderr = [ERROR_line (diff_message (diff_proc W (repo_root W) [b @ ustr ''...HEAD'']))]\<rparr>"
    by (rule main_RuntimeError)
next
  assume h: "\<not> arg_all a \<and> \<not> base_given a \<and>
    returncode (diff_proc W (repo_root W) [ustr ''--cached'']) \<noteq> 0"
  then have "collect_findings U W (repo_root W) a =
      Inl (RuntimeError (diff_message (diff_proc W (repo_root W) [ustr ''--cached''])))"
    by (simp add: collect_findings_def scan_git_diff_fails)
  then show "main U W a = Inr \<lparr>exit_code = 2, printed_stdout = [],
        printed_stderr = [ERROR_line (diff_message (diff_proc W (repo_root W) [ustr ''--cached'']))]\<rparr>"
    by (rule main_RuntimeError)
next
  assume h: "\<not> arg_all a \<and> \<not> base_given a \<and> \<not> arg_staged a \<and>
    scan_git_diff U W (repo_root W) [ustr ''--cached''] = Inr gs \<and>
    returncode (diff_proc W (repo_root W) []) \<noteq> 0"
  then have "collect_findings U W (repo_root W) a =
      Inl (RuntimeError (diff_message (diff_proc W (repo_root W) [])))"
    by (simp add: collect_findings_def scan_git_diff_fails)
  then show "main U W a = Inr \<lparr>exit_code = 2, printed_stdout = [],
        printed_stderr = [ERROR_line (diff_message (diff_proc W (repo_root W) []))]\<rparr>"
    by (rule main_RuntimeError)
qed

lemma ustr_main: "ustr ''main'' \<noteq> []"
  by (simp add: ustr_def)

lemma collect_sample:
  "collect_findings sample_unicodedata (sample_world git_ok) (ustr ''/repo'') mode_base = Inr []"
  "collect_findings sample_unicodedata (sample_world git_ok) (ustr ''/repo'') mode_all = Inr [sample_finding]"
  by (simp_all add: collect_findings_def mode_all_def mode_base_def base_given_def tracked_sample
      scan_file_sample diff_sample ustr_main)

lemma diff_proc_sample:
  "returncode (diff_proc (sample_world git_unstaged_fails) (ustr ''/repo'') [ustr ''main'' @ ustr ''...HEAD'']) = 128"
  "returncode (diff_proc (sample_world git_unstaged_fails) (ustr ''/repo'') []) = 128"
  "returncode (diff_proc (sample_world git_fails) (ustr ''/repo'') diff_args) = 128"
  "diff_message (diff_proc (sample_world git_unstaged_fails) (ustr ''/repo'') [ustr ''main'' @ ustr ''...HEAD'']) = ustr ''fatal: bad revision''"
  "diff_message (diff_proc (sample_world git_unstaged_fails) (ustr ''/repo'') []) = ustr ''fatal: bad revision''"
  "diff_message (diff_proc (sample_world git_fails) (ustr ''/repo'') diff_args) = ustr ''fatal: bad revision''"
  by (simp_all add: world_defs text_defs)

theorem main_exit_codes_witness:
  "main sample_unicodedata (sample_world git_ok) mode_base =
     Inr \<lparr>exit_code = 0, printed_stdout = [OK_line], printed_stderr = []\<rparr> \<and>
   main sample_unicodedata (sample_world git_ok) mode_all =
     Inr \<lparr>exit_code = 1, printed_stdout = [FAIL_line, Finding_line sample_finding], printed_stderr = []\<rparr> \<and>
   main sample_unicodedata (sample_world git_unstaged_fails) mode_base =
     Inr \<lparr>exit_code = 2, printed_stdout = [], printed_stderr = [ERROR_line (ustr ''fatal: bad revision'')]\<rparr> \<and>
   main sample_unicodedata (sample_world git_fails) mode_staged =
     Inr \<lparr>exit_code = 2, printed_stdout = [], printed_stderr = [ERROR_line (ustr ''fatal: bad revision'')]\<rparr> \<and>
   main sample_unicodedata (sample_world git_unstaged_fails) mode_default =
     Inr \<lparr>exit_code = 2, printed_stdout = [], printed_stderr = [ERROR_line (ustr ''fatal: bad revision'')]\<rparr>"
proof -
  note main_exit_codes [of sample_unicodedata "sample_world git_ok" mode_base "[]" "[]" "[]",
      unfolded repo_root_sample, THEN conjunct1]
  moreover note main_exit_codes [of sample_unicodedata "sample_world git_ok" mode_all "[sample_finding]" "[]" "[]",
      unfolded repo_root_sample, THEN conjunct2, THEN conjunct1]
  moreover note main_exit_codes [of sample_unicodedata "sample_world git_unstaged_fails" mode_base "[]" "ustr ''main''" "[]",
      unfolded repo_root_sample, THEN conjunct2, THEN conjunct2, THEN conjunct1]
  moreover note main_exit_codes [of sample_unicodedata "sample_world git_fails" mode_staged "[]" "[]" "[]",
      unfolded repo_root_sample, THEN conjunct2, THEN conjunct2, THEN conjunct2, THEN conjunct1]
  moreover note main_exit_codes [of sample_unicodedata "sample_world git_unstaged_fails" mode_default "[]" "[]" "[]",
      unfolded repo_root_sample, THEN conjunct2, THEN conjunct2, THEN conjunct2, THEN conjunct2]
  ultimately show ?thesis
    by (simp add: collect_sample diff_proc_sample diff_sample ustr_main)
       (simp add: mode_base_def mode_staged_def mode_default_def base_given_def ustr_main)
qed


lemma extend_findings_nil: "extend_findings x (Inr []) = x"
  by (cases x) simp_all

lemma tracked_listing_fails:
  "returncode (run_git (sample_world git_listing_fails) (ustr ''/repo'') [ustr ''ls-files'']) = 128"
  "returncode (run_git (sample_world git_listing_fails) (ustr ''/repo'')
     [ustr ''ls-files'', ustr ''--others'', ustr ''--exclude-standard'']) = 128"
  "collect_tracked_files (sample_world git_listing_fails) (ustr ''/repo'') = []"
  by (simp_all add: world_defs text_defs)

text \<open>
  C2, as stated, fails: in All mode, with a listing command that exits with status 128, the
  run ends with exit code 0 and the line OK.
\<close>

theorem listing_failure_counterexample:
  "returncode (run_git (sample_world git_listing_fails) (repo_root (sample_world git_listing_fails))
                 [ustr ''ls-files'']) \<noteq> 0 \<and>
   main sample_unicodedata (sample_world git_listing_fails) mode_all =
     Inr \<lparr>exit_code = 0, printed_stdout = [OK_line], printed_stderr = []\<rparr>"
  by (simp add: repo_root_sample tracked_listing_fails main_def collect_findings_def mode_all_def)

text \<open>
  C2, amended. A listing command that exits nonzero is taken as an empty listing and the
  run goes on: in All mode the outcome is clean (exit code 0, the line OK), and in Staged
  and Default mode the findings, or the failure, are those of the diff scans alone.
\<close>

theorem listing_failure_not_fatal:
  "(arg_all a \<and> returncode (run_git W (repo_root W) [ustr ''ls-files'']) \<noteq> 0 \<longrightarrow>
      main U W a = Inr \<lparr>exit_code = 0, printed_stdout = [OK_line], printed_stderr = []\<rparr>) \<and>
   (\<not> arg_all a \<and> \<not> base_given a \<and>
    returncode (run_git W (repo_root W)
                  [ustr ''ls-files'', ustr ''--others'', ustr ''--exclude-standard'']) \<noteq> 0 \<longrightarrow>
      collect_findings U W (repo_root W) a =
        (if arg_staged a then scan_git_diff U W (repo_root W) [ustr ''--cached'']
         else extend_findings (scan_git_diff U W (repo_root W) [ustr ''--cached''])
                              (scan_git_diff U W (repo_root W) [])))"
  by (simp add: main_def collect_findings_def collect_tracked_files_def collect_untracked_def
      extend_findings_nil)

theorem listing_failure_not_fatal_witness:
  "main sample_unicodedata (sample_world git_listing_fails) mode_all =
     Inr \<lparr>exit_code = 0, printed_stdout = [OK_line], printed_stderr = []\<rparr> \<and>
   collect_findings sample_unicodedata (sample_world git_listing_fails) (ustr ''/repo'') mode_staged = Inr []"
proof -
  note listing_failure_not_fatal [of mode_all "sample_world git_listing_fails" sample_unicodedata,
      unfolded repo_root_sample, THEN conjunct1]
  moreover note listing_failure_not_fatal [of mode_staged "sample_world git_listing_fails" sample_unicodedata,
      unfolded repo_root_sample, THEN conjunct2]
  ultimately show ?thesis
    by (simp add: tracked_listing_fails diff_sample)
       (simp add: mode_all_def mode_staged_def base_given_def diff_sample)
qed

end
